theory Spec2Isabelle
  imports Main "HOL-Library.Sublist"
begin

section \<open>Python string primitives used by build.py\<close>

text \<open>
  Strings are character lists. The functions below are the Python operations the script
  applies to them, written so that they compute: \<open>s.endswith(t)\<close>, \<open>t in s\<close>,
  \<open>s[:-4]\<close>, \<open>sep.join(parts)\<close>, \<open>s.split()\<close> and the decimal text of an integer
  inside an f-string.
\<close>

definition endswith :: "string \<Rightarrow> string \<Rightarrow> bool" where
  "endswith s t = (length t \<le> length s \<and> drop (length s - length t) s = t)"

definition startswith :: "string \<Rightarrow> string \<Rightarrow> bool" where
  "startswith s t = (take (length t) s = t)"

fun py_in :: "string \<Rightarrow> string \<Rightarrow> bool" where
  "py_in t [] = (t = [])"
| "py_in t (c # cs) = (startswith (c # cs) t \<or> py_in t cs)"

definition drop_last4 :: "string \<Rightarrow> string" where
  \<comment> \<open>the slice \<open>s[:-4]\<close>: every character but the last four (nothing when there are fewer)\<close>
  "drop_last4 s = take (length s - 4) s"

fun py_join :: "string \<Rightarrow> string list \<Rightarrow> string" where
  "py_join sep [] = []"
| "py_join sep [x] = x"
| "py_join sep (x # y # ys) = x @ sep @ py_join sep (y # ys)"

definition py_isspace :: "char \<Rightarrow> bool" where
  "py_isspace c =
     (let n = (of_char c :: nat)
      in (9 \<le> n \<and> n \<le> 13) \<or> (28 \<le> n \<and> n \<le> 32) \<or> n = 133 \<or> n = 160)"

fun py_split_from :: "string \<Rightarrow> string \<Rightarrow> string list" where
  "py_split_from cur [] = (if cur = [] then [] else [cur])"
| "py_split_from cur (c # cs) =
     (if py_isspace c
      then (if cur = [] then py_split_from [] cs else cur # py_split_from [] cs)
      else py_split_from (cur @ [c]) cs)"

definition py_split :: "string \<Rightarrow> string list" where
  "py_split s = py_split_from [] s"

definition digit_char :: "nat \<Rightarrow> char" where
  "digit_char d = char_of (48 + d)"

fun str_nat :: "nat \<Rightarrow> string" where
  "str_nat n = (if n < 10 then [digit_char n] else str_nat (n div 10) @ [digit_char (n mod 10)])"

declare str_nat.simps [simp del]

definition str_int :: "int \<Rightarrow> string" where
  "str_int i = (if i < 0 then CHR ''-'' # str_nat (nat (- i)) else str_nat (nat i))"

definition py_str :: "string option \<Rightarrow> string" where
  \<comment> \<open>\<open>str(v)\<close> and \<open>f"{v}"\<close> for a value that is a string or \<open>None\<close>\<close>
  "py_str v = (case v of None \<Rightarrow> ''None'' | Some s \<Rightarrow> s)"

definition truthy :: "string option \<Rightarrow> bool" where
  \<comment> \<open>Python truth value of a string or \<open>None\<close>: \<open>None\<close> and the empty string are false\<close>
  "truthy v = (case v of None \<Rightarrow> False | Some s \<Rightarrow> s \<noteq> [])"


section \<open>The world the script runs in\<close>

text \<open>
  Exceptions are values. \<open>ValueError f\<close> is the constructor's \<open>ValueError\<close>, whose message
  says that the configuration file lacks the path setting \<open>f\<close>; \<open>TypeError\<close> is what
  \<open>os.path.exists(None)\<close> raises; \<open>OSError\<close> stands for a failing \<open>os.makedirs\<close>,
  \<open>shutil.copy2\<close> or \<open>shutil.rmtree\<close>.
\<close>

datatype exn =
    FileNotFoundError
  | TOMLDecodeError
  | ValueError string
  | TypeError
  | OSError

text \<open>
  The \<open>paths\<close> table of the configuration file, each key optional, typed as the
  configuration interface declares it (strings, and an integer API level).
\<close>

record paths_table =
  cfg_android_ndk_home :: "string option"
  cfg_llvm_path :: "string option"
  cfg_android_api_level :: "int option"
  cfg_target :: "string option"
  cfg_binary_name :: "string option"
  cfg_output_dir :: "string option"

definition empty_paths :: paths_table where
  "empty_paths =
     \<lparr>cfg_android_ndk_home = None, cfg_llvm_path = None, cfg_android_api_level = None,
      cfg_target = None, cfg_binary_name = None, cfg_output_dir = None\<rparr>"

text \<open>
  What \<open>open\<close> followed by the TOML loader finds at a path: no file, a file that does not
  parse, or a document with or without a \<open>paths\<close> table.
\<close>

datatype file_state = Absent | Malformed | Toml "paths_table option"

text \<open>
  A subprocess is opaque: \<open>subprocess.run(..., check=True)\<close> either returns with the
  captured standard output, raises \<open>CalledProcessError\<close> (non-zero exit), or raises
  \<open>FileNotFoundError\<close> because the executable is absent.
\<close>

datatype proc_result = Completed string | CalledProcessError | NotFound

type_synonym cmd = "string list"

datatype fs_op = MakeDirs string | Copy2 string string | RmTree string

text \<open>
  The state the script reads and writes: the process environment, which paths exist
  (\<open>os.path.exists\<close>), the configuration files, the commands handed to
  \<open>subprocess.run\<close> so far, and the file-system calls made so far. The behaviour of the
  outside is given by three parameters: \<open>child_exit n c\<close> is how the \<open>n\<close>-th call of
  \<open>subprocess.run\<close>, with command \<open>c\<close>, ends; \<open>child_fs n c\<close> is what that child does to
  the set of existing paths; \<open>fs_denied p\<close> says that a mutating file-system call on
  \<open>p\<close> raises.
\<close>

record world =
  environ :: "string \<rightharpoonup> string"
  fs_exists :: "string \<Rightarrow> bool"
  config_at :: "string \<Rightarrow> file_state"
  spawned :: "cmd list"
  fs_ops :: "fs_op list"
  child_exit :: "nat \<Rightarrow> cmd \<Rightarrow> proc_result"
  child_fs :: "nat \<Rightarrow> cmd \<Rightarrow> (string \<Rightarrow> bool) \<Rightarrow> (string \<Rightarrow> bool)"
  fs_denied :: "string \<Rightarrow> bool"

definition subprocess_run :: "world \<Rightarrow> cmd \<Rightarrow> proc_result \<times> world" where
  "subprocess_run w c =
     (let n = length (spawned w); r = child_exit w n c
      in (r, w\<lparr>spawned := spawned w @ [c],
                fs_exists := (if r = NotFound then fs_exists w
                              else child_fs w n c (fs_exists w))\<rparr>))"

definition os_makedirs :: "world \<Rightarrow> string \<Rightarrow> exn + world" where
  \<comment> \<open>\<open>os.makedirs(d, exist_ok=True)\<close>\<close>
  "os_makedirs w d =
     (if fs_denied w d then Inl OSError
      else Inr (w\<lparr>fs_exists := (fs_exists w)(d := True), fs_ops := fs_ops w @ [MakeDirs d]\<rparr>))"

definition shutil_copy2 :: "world \<Rightarrow> string \<Rightarrow> string \<Rightarrow> exn + world" where
  "shutil_copy2 w src dst =
     (if fs_denied w dst then Inl OSError
      else Inr (w\<lparr>fs_exists := (fs_exists w)(dst := True),
                  fs_ops := fs_ops w @ [Copy2 src dst]\<rparr>))"

definition shutil_rmtree :: "world \<Rightarrow> string \<Rightarrow> exn + world" where
  "shutil_rmtree w d =
     (if fs_denied w d then Inl OSError
      else Inr (w\<lparr>fs_exists := (fs_exists w)(d := False), fs_ops := fs_ops w @ [RmTree d]\<rparr>))"

definition toml_load_path :: "world \<Rightarrow> string \<Rightarrow> exn + paths_table option" where
  "toml_load_path w path =
     (case config_at w path of
        Absent \<Rightarrow> Inl FileNotFoundError
      | Malformed \<Rightarrow> Inl TOMLDecodeError
      | Toml doc \<Rightarrow> Inr doc)"


section \<open>GPUGovernorBuilder\<close>

text \<open>
  The object is a record of the attributes the constructor sets; it is never assigned to
  afterwards. Each method is a function of the builder and the world, returning its result
  (or the exception it raises) and the world it leaves. Calls of \<open>print\<close> are left out,
  and so is \<open>os.path.getsize\<close> on the file just copied, whose value is only printed.
\<close>

record builder =
  android_ndk_home :: "string option"
  llvm_path :: "string option"
  android_api_level :: int
  target :: string
  binary_name :: string
  output_dir :: string
  native_build :: bool

definition looks_native :: "string \<Rightarrow> bool" where
  "looks_native t =
     (endswith t ''windows-msvc'' \<or> endswith t ''windows-gnu'' \<or> endswith t ''unknown-linux-gnu'')"

definition toolchain_present :: "string option \<Rightarrow> string option \<Rightarrow> (string \<Rightarrow> bool) \<Rightarrow> bool" where
  \<comment> \<open>\<open>ndk and llvm and os.path.exists(ndk) and os.path.exists(llvm)\<close>, left to right\<close>
  "toolchain_present ndk llvm ex =
     (case ndk of None \<Rightarrow> False
      | Some n \<Rightarrow> n \<noteq> [] \<and>
          (case llvm of None \<Rightarrow> False
           | Some l \<Rightarrow> l \<noteq> [] \<and> ex n \<and> ex l))"

definition is_native_build :: "string \<Rightarrow> string option \<Rightarrow> string option \<Rightarrow> (string \<Rightarrow> bool) \<Rightarrow> bool" where
  "is_native_build t ndk llvm ex = (looks_native t \<and> \<not> toolchain_present ndk llvm ex)"

definition is_windows_target :: "builder \<Rightarrow> bool" where
  "is_windows_target b = py_in ''windows'' (target b)"

definition binary_suffix :: "builder \<Rightarrow> string" where
  "binary_suffix b = (if is_windows_target b then ''.exe'' else [])"

definition prebuilt_bin :: "builder \<Rightarrow> string" where
  "prebuilt_bin b = py_str (android_ndk_home b) @ ''/toolchains/llvm/prebuilt/windows-x86_64/bin''"

definition linker_path :: "builder \<Rightarrow> (string \<Rightarrow> bool) \<Rightarrow> string" where
  "linker_path b ex =
     (let linker = prebuilt_bin b @ ''/aarch64-linux-android'' @ str_int (android_api_level b)
                     @ ''-clang.cmd''
      in if \<not> ex linker
         then (let alt = drop_last4 linker @ ''.bat'' in if ex alt then alt else linker)
         else linker)"

definition env_vars :: "builder \<Rightarrow> world \<Rightarrow> (string \<times> string) list" where
  \<comment> \<open>the dictionary \<open>env_vars\<close>, in insertion order\<close>
  "env_vars b w =
     (if \<not> native_build b then
        [(''ANDROID_NDK_HOME'', py_str (android_ndk_home b)),
         (''LLVM_PATH'', py_str (llvm_path b)),
         (''CARGO_TARGET_AARCH64_LINUX_ANDROID_LINKER'', linker_path b (fs_exists w)),
         (''CARGO_TARGET_AARCH64_LINUX_ANDROID_AR'', py_str (llvm_path b) @ ''/bin/llvm-ar.exe''),
         (''LIBCLANG_PATH'', py_str (llvm_path b) @ ''/bin''),
         (''BINDGEN_EXTRA_CLANG_ARGS'',
            ''--target=aarch64-linux-android -I'' @ py_str (android_ndk_home b)
              @ ''/toolchains/llvm/prebuilt/windows-x86_64/sysroot/usr/include''),
         (''PATH'',
            py_join '';''
              [py_str (llvm_path b) @ ''/bin'',
               py_str (android_ndk_home b) @ ''/toolchains/llvm/prebuilt/windows-x86_64/bin'',
               (case environ w ''PATH'' of None \<Rightarrow> [] | Some p \<Rightarrow> p)])]
      else [])"

fun set_all :: "(string \<times> string) list \<Rightarrow> (string \<rightharpoonup> string) \<Rightarrow> (string \<rightharpoonup> string)" where
  "set_all [] e = e"
| "set_all ((k, v) # kvs) e = set_all kvs (e(k \<mapsto> v))"

definition setup_environment :: "builder \<Rightarrow> world \<Rightarrow> world" where
  "setup_environment b w = w\<lparr>environ := set_all (env_vars b w) (environ w)\<rparr>"

definition init :: "world \<Rightarrow> string \<Rightarrow> (exn + builder) \<times> world" where
  "init w config_path =
     (case toml_load_path w config_path of
        Inl e \<Rightarrow> (Inl e, w)
      | Inr config \<Rightarrow>
          (let paths = (case config of None \<Rightarrow> empty_paths | Some p \<Rightarrow> p);
               ndk = cfg_android_ndk_home paths;
               llvm = cfg_llvm_path paths;
               tgt = (case cfg_target paths of None \<Rightarrow> ''x86_64-pc-windows-msvc'' | Some t \<Rightarrow> t);
               b = \<lparr>android_ndk_home = ndk,
                    llvm_path = llvm,
                    android_api_level = (case cfg_android_api_level paths of None \<Rightarrow> 33 | Some a \<Rightarrow> a),
                    target = tgt,
                    binary_name = (case cfg_binary_name paths of None \<Rightarrow> ''fpid'' | Some n \<Rightarrow> n),
                    output_dir = (case cfg_output_dir paths of None \<Rightarrow> ''output'' | Some d \<Rightarrow> d),
                    native_build = is_native_build tgt ndk llvm (fs_exists w)\<rparr>
           in if \<not> native_build b \<and> \<not> truthy ndk then (Inl (ValueError ''android_ndk_home''), w)
              else if \<not> native_build b \<and> \<not> truthy llvm then (Inl (ValueError ''llvm_path''), w)
              else (Inr b, setup_environment b w)))"

fun missing_deps :: "(string \<Rightarrow> bool) \<Rightarrow> (string option \<times> string) list \<Rightarrow> exn + string list" where
  "missing_deps ex [] = Inr []"
| "missing_deps ex ((None, name) # ds) = Inl TypeError"
| "missing_deps ex ((Some p, name) # ds) =
     (case missing_deps ex ds of
        Inl e \<Rightarrow> Inl e
      | Inr ms \<Rightarrow> Inr (if ex p then ms else (name @ '': '' @ p) # ms))"

definition dependencies :: "builder \<Rightarrow> (string option \<times> string) list" where
  "dependencies b =
     (if native_build b then []
      else [(android_ndk_home b, ''Android NDK''), (llvm_path b, ''LLVM'')])"

definition check_dependencies :: "builder \<Rightarrow> world \<Rightarrow> exn + bool" where
  "check_dependencies b w =
     (case missing_deps (fs_exists w) (dependencies b) of
        Inl e \<Rightarrow> Inl e
      | Inr ms \<Rightarrow> Inr (ms = []))"

definition target_installer :: "builder \<Rightarrow> world \<Rightarrow> world" where
  "target_installer b w =
     (case subprocess_run w [''rustup'', ''target'', ''list'', ''--installed''] of
        (Completed out, w1) \<Rightarrow>
          (if target b \<in> set (py_split out) then w1
           else snd (subprocess_run w1 [''rustup'', ''target'', ''add'', target b]))
      | (CalledProcessError, w1) \<Rightarrow> w1
      | (NotFound, w1) \<Rightarrow> w1)"

definition fmt_cmd :: cmd where
  "fmt_cmd = [''cargo'', ''fmt'', ''--check'']"

definition fmt_fix_cmd :: cmd where
  "fmt_fix_cmd = [''cargo'', ''fmt'']"

definition clippy_cmd :: cmd where
  "clippy_cmd = [''cargo'', ''clippy'', ''--'', ''-D'', ''warnings'']"

definition format_gate :: "world \<Rightarrow> bool \<times> world" where
  \<comment> \<open>the first component is False where \<open>build\<close> returns False from this stage\<close>
  "format_gate w =
     (case subprocess_run w fmt_cmd of
        (Completed out, w1) \<Rightarrow> (True, w1)
      | (NotFound, w1) \<Rightarrow> (True, w1)
      | (CalledProcessError, w1) \<Rightarrow>
          (case subprocess_run w1 fmt_fix_cmd of
             (Completed out, w2) \<Rightarrow>
               (case subprocess_run w2 fmt_cmd of
                  (Completed out', w3) \<Rightarrow> (True, w3)
                | (NotFound, w3) \<Rightarrow> (True, w3)
                | (CalledProcessError, w3) \<Rightarrow> (False, w3))
           | (NotFound, w2) \<Rightarrow> (True, w2)
           | (CalledProcessError, w2) \<Rightarrow> (False, w2)))"

definition build_cmd :: "builder \<Rightarrow> cmd" where
  "build_cmd b =
     [''cargo'', ''build'', ''--release'']
       @ (if target b \<noteq> [] then [''--target'', target b] else [])"

definition compiler_invoker :: "builder \<Rightarrow> world \<Rightarrow> (exn + bool) \<times> world" where
  "compiler_invoker b w =
     (case subprocess_run w (build_cmd b) of
        (Completed out, w1) \<Rightarrow> (Inr True, w1)
      | (CalledProcessError, w1) \<Rightarrow> (Inr False, w1)
      | (NotFound, w1) \<Rightarrow> (Inl FileNotFoundError, w1))"

definition lint_and_compile :: "builder \<Rightarrow> world \<Rightarrow> (exn + bool) \<times> world" where
  "lint_and_compile b w =
     (case subprocess_run w clippy_cmd of
        (Completed out, w1) \<Rightarrow> compiler_invoker b w1
      | (NotFound, w1) \<Rightarrow> compiler_invoker b w1
      | (CalledProcessError, w1) \<Rightarrow> (Inr False, w1))"

definition build :: "builder \<Rightarrow> world \<Rightarrow> (exn + bool) \<times> world" where
  "build b w =
     (case check_dependencies b w of
        Inl e \<Rightarrow> (Inl e, w)
      | Inr False \<Rightarrow> (Inr False, w)
      | Inr True \<Rightarrow>
          (case format_gate (target_installer b w) of
             (False, w2) \<Rightarrow> (Inr False, w2)
           | (True, w2) \<Rightarrow> lint_and_compile b w2))"

definition source_path :: "builder \<Rightarrow> string" where
  "source_path b = ''target/'' @ target b @ ''/release/'' @ binary_name b @ binary_suffix b"

definition dest_path :: "builder \<Rightarrow> string" where
  "dest_path b = output_dir b @ ''/'' @ binary_name b @ binary_suffix b"

definition copy_binary :: "builder \<Rightarrow> world \<Rightarrow> (exn + bool) \<times> world" where
  "copy_binary b w =
     (if \<not> fs_exists w (source_path b) then (Inr False, w)
      else (case os_makedirs w (output_dir b) of
              Inl e \<Rightarrow> (Inl e, w)
            | Inr w1 \<Rightarrow>
                (case shutil_copy2 w1 (source_path b) (dest_path b) of
                   Inl e \<Rightarrow> (Inl e, w1)
                 | Inr w2 \<Rightarrow> (Inr True, w2))))"

definition clean :: "builder \<Rightarrow> world \<Rightarrow> (exn + unit) \<times> world" where
  "clean b w =
     (case subprocess_run w [''cargo'', ''clean''] of
        (NotFound, w1) \<Rightarrow> (Inl FileNotFoundError, w1)
      | (r, w1) \<Rightarrow>
          (if fs_exists w1 (output_dir b)
           then (case shutil_rmtree w1 (output_dir b) of
                   Inl e \<Rightarrow> (Inl e, w1)
                 | Inr w2 \<Rightarrow> (Inr (), w2))
           else (Inr (), w1)))"

definition build_only_flow :: "builder \<Rightarrow> world \<Rightarrow> (exn + bool) \<times> world" where
  "build_only_flow b w =
     (case build b w of
        (Inl e, w1) \<Rightarrow> (Inl e, w1)
      | (Inr False, w1) \<Rightarrow> (Inr False, w1)
      | (Inr True, w1) \<Rightarrow>
          (case copy_binary b w1 of
             (Inl e, w2) \<Rightarrow> (Inl e, w2)
           | (Inr False, w2) \<Rightarrow> (Inr False, w2)
           | (Inr True, w2) \<Rightarrow> (Inr True, w2)))"


section \<open>main\<close>

record args =
  arg_clean :: bool
  arg_config :: string

datatype outcome = Exit nat | Uncaught exn

definition exit_code :: "outcome \<Rightarrow> nat" where
  \<comment> \<open>the interpreter ends with status 1 on an uncaught exception\<close>
  "exit_code oc = (case oc of Exit n \<Rightarrow> n | Uncaught e \<Rightarrow> 1)"

definition main :: "args \<Rightarrow> world \<Rightarrow> outcome \<times> world" where
  "main a w =
     (case init w (arg_config a) of
        (Inl e, w1) \<Rightarrow> (Uncaught e, w1)
      | (Inr b, w1) \<Rightarrow>
          (if arg_clean a
           then (case clean b w1 of
                   (Inl e, w2) \<Rightarrow> (Uncaught e, w2)
                 | (Inr u, w2) \<Rightarrow> (Exit 0, w2))
           else (case build_only_flow b w1 of
                   (Inl e, w2) \<Rightarrow> (Uncaught e, w2)
                 | (Inr False, w2) \<Rightarrow> (Exit 1, w2)
                 | (Inr True, w2) \<Rightarrow> (Exit 0, w2))))"


section \<open>The specification's vocabulary\<close>

text \<open>
  The specification speaks of a build mode, of a toolchain path that is supplied and present
  on disk, and of the linker's path without its extension. These definitions follow its
  words; the theorems below compare them with the functions of the script.
\<close>

datatype build_mode = Native | Cross

definition supplied :: "string option \<Rightarrow> bool" where
  "supplied v = (v \<noteq> None \<and> v \<noteq> Some [])"

definition on_disk :: "(string \<Rightarrow> bool) \<Rightarrow> string option \<Rightarrow> bool" where
  "on_disk ex v = (case v of None \<Rightarrow> False | Some p \<Rightarrow> ex p)"

definition spec_looks_native :: "string \<Rightarrow> bool" where
  "spec_looks_native t =
     (suffix ''windows-msvc'' t \<or> suffix ''windows-gnu'' t \<or> suffix ''unknown-linux-gnu'' t)"

definition spec_mode :: "string \<Rightarrow> string option \<Rightarrow> string option \<Rightarrow> (string \<Rightarrow> bool) \<Rightarrow> build_mode" where
  "spec_mode t ndk llvm ex =
     (if spec_looks_native t
         \<and> \<not> (supplied ndk \<and> supplied llvm \<and> on_disk ex ndk \<and> on_disk ex llvm)
      then Native else Cross)"

definition spec_linker_stem :: "string \<Rightarrow> int \<Rightarrow> string" where
  "spec_linker_stem ndk api =
     ndk @ ''/toolchains/llvm/prebuilt/windows-x86_64/bin/aarch64-linux-android'' @ str_int api
       @ ''-clang''"

definition spec_linker :: "string \<Rightarrow> int \<Rightarrow> (string \<Rightarrow> bool) \<Rightarrow> string" where
  \<comment> \<open>primary extension first; the secondary one only if the primary path is absent and the
      secondary path is there\<close>
  "spec_linker ndk api ex =
     (let primary = spec_linker_stem ndk api @ ''.cmd'';
          secondary = spec_linker_stem ndk api @ ''.bat''
      in if \<not> ex primary \<and> ex secondary then secondary else primary)"

definition path_prefix :: "builder \<Rightarrow> string" where
  \<comment> \<open>what one run of the environment step puts in front of the inherited search path\<close>
  "path_prefix b =
     py_str (llvm_path b) @ ''/bin;'' @ py_str (android_ndk_home b)
       @ ''/toolchains/llvm/prebuilt/windows-x86_64/bin;''"


section \<open>Example configurations and runs\<close>

definition example_world ::
    "file_state \<Rightarrow> (string \<Rightarrow> bool) \<Rightarrow> (nat \<Rightarrow> cmd \<Rightarrow> proc_result) \<Rightarrow> world" where
  "example_world cfg ex child =
     \<lparr>environ = [''PATH'' \<mapsto> ''C:/bin''], fs_exists = ex,
      config_at = (\<lambda>p. if p = ''build_config.toml'' then cfg else Absent),
      spawned = [], fs_ops = [], child_exit = child,
      child_fs = (\<lambda>n c ex. ex), fs_denied = (\<lambda>p. False)\<rparr>"

text \<open>A configuration file without a \<open>paths\<close> table: every default applies.\<close>

definition default_world :: world where
  "default_world = example_world (Toml None) (\<lambda>p. False) (\<lambda>n c. Completed [])"

definition default_builder :: builder where
  "default_builder =
     \<lparr>android_ndk_home = None, llvm_path = None, android_api_level = 33,
      target = ''x86_64-pc-windows-msvc'', binary_name = ''fpid'', output_dir = ''output'',
      native_build = True\<rparr>"

text \<open>The same, with every path present on disk (so the compiled artifact is found).\<close>

definition staged_world :: world where
  "staged_world = example_world (Toml None) (\<lambda>p. True) (\<lambda>n c. Completed [])"

text \<open>An Android configuration naming both toolchain roots.\<close>

definition android_paths :: paths_table where
  "android_paths =
     \<lparr>cfg_android_ndk_home = Some ''C:/ndk'', cfg_llvm_path = Some ''C:/llvm'',
      cfg_android_api_level = None, cfg_target = Some ''aarch64-linux-android'',
      cfg_binary_name = None, cfg_output_dir = None\<rparr>"

definition android_builder :: builder where
  "android_builder =
     \<lparr>android_ndk_home = Some ''C:/ndk'', llvm_path = Some ''C:/llvm'', android_api_level = 33,
      target = ''aarch64-linux-android'', binary_name = ''fpid'', output_dir = ''output'',
      native_build = False\<rparr>"

text \<open>Both roots on disk, and the linker only under its \<open>.bat\<close> name.\<close>

definition android_world :: world where
  "android_world =
     example_world (Toml (Some android_paths))
       (\<lambda>p. p \<in> {''C:/ndk'', ''C:/llvm'',
                 ''C:/ndk/toolchains/llvm/prebuilt/windows-x86_64/bin/aarch64-linux-android33-clang.bat''})
       (\<lambda>n c. Completed [])"

text \<open>No configuration file at all.\<close>

definition absent_config_world :: world where
  "absent_config_world = example_world Absent (\<lambda>p. True) (\<lambda>n c. Completed [])"

definition clean_args :: args where
  "clean_args = \<lparr>arg_clean = True, arg_config = ''build_config.toml''\<rparr>"

text \<open>The format check fails every time it runs; every other command succeeds.\<close>

definition recheck_fails_world :: world where
  "recheck_fails_world =
     example_world (Toml None) (\<lambda>p. False)
       (\<lambda>n c. if c = fmt_cmd then CalledProcessError else Completed [])"

text \<open>Only the third subprocess (the first format check) fails.\<close>

definition recheck_passes_world :: world where
  "recheck_passes_world =
     example_world (Toml None) (\<lambda>p. False)
       (\<lambda>n c. if n = 2 then CalledProcessError else Completed [])"

text \<open>The Android configuration, with neither toolchain root on disk.\<close>

definition missing_dirs_world :: world where
  "missing_dirs_world =
     example_world (Toml (Some android_paths)) (\<lambda>p. False) (\<lambda>n c. Completed [])"

text \<open>The Android configuration, with the NDK on disk and the LLVM root missing.\<close>

definition llvm_missing_world :: world where
  "llvm_missing_world =
     example_world (Toml (Some android_paths)) (\<lambda>p. p = ''C:/ndk'') (\<lambda>n c. Completed [])"

text \<open>An Android target with neither toolchain path configured.\<close>

definition no_paths :: paths_table where
  "no_paths =
     \<lparr>cfg_android_ndk_home = None, cfg_llvm_path = None, cfg_android_api_level = None,
      cfg_target = Some ''aarch64-linux-android'', cfg_binary_name = None,
      cfg_output_dir = None\<rparr>"

definition no_paths_world :: world where
  "no_paths_world = example_world (Toml (Some no_paths)) (\<lambda>p. True) (\<lambda>n c. Completed [])"

text \<open>The default host triple, with both toolchain roots configured and on disk.\<close>

definition host_toolchain_paths :: paths_table where
  "host_toolchain_paths =
     \<lparr>cfg_android_ndk_home = Some ''C:/ndk'', cfg_llvm_path = Some ''C:/llvm'',
      cfg_android_api_level = None, cfg_target = None, cfg_binary_name = None,
      cfg_output_dir = None\<rparr>"

definition host_toolchain_builder :: builder where
  "host_toolchain_builder =
     \<lparr>android_ndk_home = Some ''C:/ndk'', llvm_path = Some ''C:/llvm'', android_api_level = 33,
      target = ''x86_64-pc-windows-msvc'', binary_name = ''fpid'', output_dir = ''output'',
      native_build = False\<rparr>"

definition host_toolchain_world :: world where
  "host_toolchain_world =
     example_world (Toml (Some host_toolchain_paths)) (\<lambda>p. True) (\<lambda>n c. Completed [])"

lemmas example_defs =
  example_world_def default_world_def default_builder_def staged_world_def android_paths_def
  android_builder_def android_world_def absent_config_world_def clean_args_def


section \<open>Facts about the string primitives\<close>

lemma startswith_prefix: "startswith s t = prefix t s"
  unfolding startswith_def
  by (metis append_eq_conv_conj prefix_def append_take_drop_id)

lemma endswith_suffix: "endswith s t = suffix t s"
proof
  assume "endswith s t"
  then have "s = take (length s - length t) s @ t"
    unfolding endswith_def by (metis append_take_drop_id)
  then show "suffix t s" unfolding suffix_def by blast
next
  assume "suffix t s"
  then obtain zs where "s = zs @ t" unfolding suffix_def by blast
  then show "endswith s t" unfolding endswith_def by simp
qed

lemma py_in_sublist: "py_in t s = sublist t s"
proof (induction s)
  case Nil
  show ?case by auto
next
  case (Cons c cs)
  show ?case
    by (simp add: Cons.IH startswith_prefix sublist_Cons_right)
qed

lemma drop_last4_ext: "length e = 4 \<Longrightarrow> drop_last4 (s @ e) = s"
  by (simp add: drop_last4_def)


section \<open>Facts about the constructor\<close>

lemma looks_native_spec: "looks_native t = spec_looks_native t"
  by (simp add: looks_native_def spec_looks_native_def endswith_suffix)

lemma looks_native_nonempty: "looks_native t \<Longrightarrow> t \<noteq> []"
  by (auto simp: looks_native_def endswith_def)

lemma toolchain_present_spec:
  "toolchain_present ndk llvm ex
     = (supplied ndk \<and> supplied llvm \<and> on_disk ex ndk \<and> on_disk ex llvm)"
  by (auto simp: toolchain_present_def supplied_def on_disk_def split: option.splits)

lemma is_native_build_spec: "is_native_build t ndk llvm ex = (spec_mode t ndk llvm ex = Native)"
  by (simp add: is_native_build_def spec_mode_def looks_native_spec toolchain_present_spec)

lemma init_builder:
  assumes "init w path = (Inr b, w')"
  shows "native_build b
           = is_native_build (target b) (android_ndk_home b) (llvm_path b) (fs_exists w)"
    and "w' = setup_environment b w"
    and "\<not> native_build b \<Longrightarrow> truthy (android_ndk_home b) \<and> truthy (llvm_path b)"
  using assms
  by (auto simp: init_def Let_def split: sum.splits if_splits)

lemma init_error:
  assumes "init w path = (Inl e, w')"
  shows "w' = w"
  using assms
  by (auto simp: init_def Let_def split: sum.splits if_splits)

lemma default_init: "init default_world ''build_config.toml'' = (Inr default_builder, default_world)"
  by (simp add: init_def example_defs toml_load_path_def empty_paths_def is_native_build_def
      looks_native_def endswith_def toolchain_present_def setup_environment_def env_vars_def
      truthy_def)

lemma android_init:
  "init android_world ''build_config.toml''
     = (Inr android_builder, setup_environment android_builder android_world)"
  by (simp add: init_def example_defs toml_load_path_def is_native_build_def looks_native_def
      endswith_def truthy_def Let_def)

lemma host_toolchain_init:
  "init host_toolchain_world ''build_config.toml''
     = (Inr host_toolchain_builder, setup_environment host_toolchain_builder host_toolchain_world)"
  by (simp add: init_def host_toolchain_world_def host_toolchain_paths_def
      host_toolchain_builder_def example_world_def toml_load_path_def is_native_build_def
      looks_native_def endswith_def toolchain_present_def truthy_def Let_def)


section \<open>Mode resolution\<close>

text \<open>
  Claim C6. The mode is Native exactly when the target triple ends with \<open>windows-msvc\<close>,
  \<open>windows-gnu\<close> or \<open>unknown-linux-gnu\<close> and it is not the case that both toolchain paths
  are supplied (non-empty) and exist on disk; otherwise it is Cross. Whenever the
  constructor returns a builder, the builder carries the configured triple (or the default
  triple when none is configured) and the two configured paths, and its flag
  \<open>native_build\<close> is this function of those configured values and the disk. A
  configuration that resolves to Native always constructs; the constructor raises only for
  a configuration that resolves to Cross. The builder is never changed afterwards (the
  pipeline stages only read it).
\<close>

theorem mode_resolution:
  assumes "config_at w path = Toml doc"
    and "p = (case doc of None \<Rightarrow> empty_paths | Some q \<Rightarrow> q)"
    and "t = (case cfg_target p of None \<Rightarrow> ''x86_64-pc-windows-msvc'' | Some s \<Rightarrow> s)"
  shows "(\<forall>b w'. init w path = (Inr b, w') \<longrightarrow>
            target b = t
            \<and> android_ndk_home b = cfg_android_ndk_home p
            \<and> llvm_path b = cfg_llvm_path p
            \<and> (native_build b \<longleftrightarrow>
                 spec_mode t (cfg_android_ndk_home p) (cfg_llvm_path p) (fs_exists w) = Native))
         \<and> (spec_mode t (cfg_android_ndk_home p) (cfg_llvm_path p) (fs_exists w) = Native \<longrightarrow>
              (\<exists>b. init w path = (Inr b, setup_environment b w) \<and> native_build b))
         \<and> (\<forall>e. fst (init w path) = Inl e \<longrightarrow>
              spec_mode t (cfg_android_ndk_home p) (cfg_llvm_path p) (fs_exists w) = Cross)
         \<and> (is_native_build t' ndk llvm ex \<longleftrightarrow> spec_mode t' ndk llvm ex = Native)"
proof -
  let ?native = "is_native_build t (cfg_android_ndk_home p) (cfg_llvm_path p) (fs_exists w)"
  have built: "target b = t \<and> android_ndk_home b = cfg_android_ndk_home p
                 \<and> llvm_path b = cfg_llvm_path p \<and> native_build b = ?native"
    if "init w path = (Inr b, w')" for b w'
    using that assms
    by (auto simp: init_def toml_load_path_def Let_def split: if_splits)
  have native: "\<exists>b. init w path = (Inr b, setup_environment b w) \<and> native_build b"
    if "?native"
    using that assms by (simp add: init_def toml_load_path_def Let_def)
  have raised: "\<not> ?native" if "fst (init w path) = Inl e" for e
    using that assms
    by (auto simp: init_def toml_load_path_def Let_def split: if_splits)
  have cross: "m = Cross" if "m \<noteq> Native" for m :: build_mode
    using that by (cases m) simp_all
  show ?thesis
    using built native raised cross by (simp add: is_native_build_spec)
qed

theorem mode_resolution_witness:
  "config_at default_world ''build_config.toml'' = Toml None
   \<and> init default_world ''build_config.toml'' = (Inr default_builder, default_world)
   \<and> native_build default_builder
   \<and> spec_mode ''x86_64-pc-windows-msvc'' None None (fs_exists default_world) = Native
   \<and> config_at android_world ''build_config.toml'' = Toml (Some android_paths)
   \<and> init android_world ''build_config.toml''
       = (Inr android_builder, setup_environment android_builder android_world)
   \<and> \<not> native_build android_builder
   \<and> spec_mode ''aarch64-linux-android'' (Some ''C:/ndk'') (Some ''C:/llvm'')
        (fs_exists android_world) = Cross
   \<and> config_at host_toolchain_world ''build_config.toml'' = Toml (Some host_toolchain_paths)
   \<and> init host_toolchain_world ''build_config.toml''
       = (Inr host_toolchain_builder,
          setup_environment host_toolchain_builder host_toolchain_world)
   \<and> \<not> native_build host_toolchain_builder
   \<and> spec_mode ''x86_64-pc-windows-msvc'' (Some ''C:/ndk'') (Some ''C:/llvm'')
        (fs_exists host_toolchain_world) = Cross"
proof -
  have cross: "m = Cross" if "m \<noteq> Native" for m :: build_mode
    using that by (cases m) simp_all
  have c1: "config_at default_world ''build_config.toml'' = Toml None"
    by (simp add: default_world_def example_world_def)
  have c2: "config_at android_world ''build_config.toml'' = Toml (Some android_paths)"
    by (simp add: android_world_def example_world_def)
  have c3: "config_at host_toolchain_world ''build_config.toml''
              = Toml (Some host_toolchain_paths)"
    by (simp add: host_toolchain_world_def example_world_def)
  have flags: "native_build default_builder" "\<not> native_build android_builder"
    "\<not> native_build host_toolchain_builder"
    by (simp_all add: default_builder_def android_builder_def host_toolchain_builder_def)
  have m1: "spec_mode ''x86_64-pc-windows-msvc'' None None (fs_exists default_world) = Native"
    using mode_resolution [OF c1 refl refl] default_init flags(1)
    by (simp add: empty_paths_def)
  have "spec_mode ''aarch64-linux-android'' (Some ''C:/ndk'') (Some ''C:/llvm'')
          (fs_exists android_world) \<noteq> Native"
    using mode_resolution [OF c2 refl refl] android_init flags(2)
    by (simp add: android_paths_def)
  then have m2: "spec_mode ''aarch64-linux-android'' (Some ''C:/ndk'') (Some ''C:/llvm'')
                   (fs_exists android_world) = Cross"
    by (rule cross)
  have "spec_mode ''x86_64-pc-windows-msvc'' (Some ''C:/ndk'') (Some ''C:/llvm'')
          (fs_exists host_toolchain_world) \<noteq> Native"
    using mode_resolution [OF c3 refl refl] host_toolchain_init flags(3)
    by (simp add: host_toolchain_paths_def)
  then have m3: "spec_mode ''x86_64-pc-windows-msvc'' (Some ''C:/ndk'') (Some ''C:/llvm'')
                   (fs_exists host_toolchain_world) = Cross"
    by (rule cross)
  show ?thesis
    using c1 c2 c3 default_init android_init host_toolchain_init flags m1 m2 m3 by blast
qed


section \<open>The compiler invocation\<close>

text \<open>
  Claim C7, as stated, fails: a native build does not omit the target argument. With the
  default configuration the build is native and the command is
  \<open>cargo build --release --target x86_64-pc-windows-msvc\<close>.
\<close>

theorem native_build_passes_target_counterexample:
  "fst (init default_world ''build_config.toml'') = Inr default_builder
   \<and> native_build default_builder
   \<and> build_cmd default_builder =
       [''cargo'', ''build'', ''--release'', ''--target'', ''x86_64-pc-windows-msvc'']
   \<and> last (spawned (snd (build default_builder default_world))) = build_cmd default_builder"
  apply (simp add: default_init)
  apply (simp add: build_def check_dependencies_def dependencies_def default_builder_def
      default_world_def example_world_def target_installer_def subprocess_run_def py_split_def
      format_gate_def Let_def lint_and_compile_def compiler_invoker_def build_cmd_def)
  done

text \<open>
  Claim C7, amended. The compiler is invoked as \<open>cargo build --release\<close>, followed by
  \<open>--target <triple>\<close> whenever the configured triple is not the empty string, in native
  and cross mode alike. A native build always passes it, since a host-like triple is never
  empty; only an empty triple (which resolves to cross mode) omits it.
\<close>

theorem build_cmd_target_argument:
  "build_cmd b
     = [''cargo'', ''build'', ''--release'']
         @ (if target b = [] then [] else [''--target'', target b])
   \<and> (init w path = (Inr b, w') \<and> native_build b \<longrightarrow>
         build_cmd b = [''cargo'', ''build'', ''--release'', ''--target'', target b])
   \<and> spawned (snd (compiler_invoker b w)) = spawned w @ [build_cmd b]"
proof -
  have "target b \<noteq> []" if "init w path = (Inr b, w')" "native_build b"
  proof -
    have "looks_native (target b)"
      using init_builder(1) [OF that(1)] that(2) by (simp add: is_native_build_def)
    then show ?thesis by (rule looks_native_nonempty)
  qed
  moreover have "spawned (snd (compiler_invoker b w)) = spawned w @ [build_cmd b]"
    by (simp add: compiler_invoker_def subprocess_run_def Let_def split: proc_result.splits)
  ultimately show ?thesis by (auto simp: build_cmd_def)
qed

theorem build_cmd_target_argument_witness:
  "init default_world ''build_config.toml'' = (Inr default_builder, default_world)
   \<and> native_build default_builder
   \<and> build_cmd default_builder
       = [''cargo'', ''build'', ''--release'', ''--target'', ''x86_64-pc-windows-msvc'']"
  using build_cmd_target_argument
    [of default_builder default_world "''build_config.toml''" default_world]
  by (simp add: default_init) (simp add: default_builder_def)


section \<open>An unreadable configuration file\<close>

text \<open>
  Claim C10. When the file named by \<open>--config\<close> does not exist or does not parse, the
  program ends with an uncaught exception, hence a non-zero exit status, with or without
  \<open>--clean\<close>, and the world is untouched: no environment variable is set, no subprocess
  is started and no file-system call is made.
\<close>

theorem unreadable_config_aborts:
  assumes "config_at w (arg_config a) = Absent \<or> config_at w (arg_config a) = Malformed"
  shows "main a w =
           (Uncaught (if config_at w (arg_config a) = Absent then FileNotFoundError
                      else TOMLDecodeError), w)
         \<and> exit_code (fst (main a w)) = 1"
  using assms
  by (auto simp: main_def init_def toml_load_path_def exit_code_def)

theorem unreadable_config_aborts_witness:
  "config_at absent_config_world (arg_config clean_args) = Absent
   \<and> main clean_args absent_config_world = (Uncaught FileNotFoundError, absent_config_world)
   \<and> exit_code (fst (main clean_args absent_config_world)) = 1"
  using unreadable_config_aborts [of absent_config_world clean_args]
  by (simp add: absent_config_world_def example_world_def clean_args_def exit_code_def)

section \<open>The linker path\<close>

lemma str_int_33: "str_int 33 = ''33''"
  by code_simp

lemma linker_path_spec:
  assumes "android_ndk_home b = Some ndk"
  shows "linker_path b ex = spec_linker ndk (android_api_level b) ex"
proof -
  let ?stem = "spec_linker_stem ndk (android_api_level b)"
  have whole: "prebuilt_bin b @ ''/aarch64-linux-android'' @ str_int (android_api_level b)
                 @ ''-clang.cmd'' = ?stem @ ''.cmd''"
    using assms by (simp add: spec_linker_stem_def prebuilt_bin_def py_str_def)
  have cut: "drop_last4 (?stem @ ''.cmd'') = ?stem"
    by (rule drop_last4_ext) simp
  show ?thesis
    unfolding linker_path_def spec_linker_def whole Let_def cut by simp
qed

text \<open>
  Claim C8. In cross mode the linker variable is set to
  \<open><ndk_root>/toolchains/llvm/prebuilt/windows-x86_64/bin/aarch64-linux-android<api_level>-clang\<close>
  with the extension \<open>.cmd\<close>, unless that path does not exist and the same path with
  \<open>.bat\<close> does, in which case the \<open>.bat\<close> path is used; when neither exists the
  \<open>.cmd\<close> path is kept.
\<close>

theorem linker_primary_then_secondary:
  assumes "\<not> native_build b" and "android_ndk_home b = Some ndk"
  shows "linker_path b (fs_exists w) = spec_linker ndk (android_api_level b) (fs_exists w)
         \<and> environ (setup_environment b w) ''CARGO_TARGET_AARCH64_LINUX_ANDROID_LINKER''
             = Some (spec_linker ndk (android_api_level b) (fs_exists w))
         \<and> (spec_linker ndk (android_api_level b) (fs_exists w)
              = spec_linker_stem ndk (android_api_level b) @ ''.bat''
            \<longleftrightarrow> \<not> fs_exists w (spec_linker_stem ndk (android_api_level b) @ ''.cmd'')
                \<and> fs_exists w (spec_linker_stem ndk (android_api_level b) @ ''.bat''))"
proof -
  have env: "environ (setup_environment b w) ''CARGO_TARGET_AARCH64_LINUX_ANDROID_LINKER''
               = Some (linker_path b (fs_exists w))"
    using assms(1) unfolding setup_environment_def env_vars_def by simp
  have iff: "(spec_linker ndk a ex = spec_linker_stem ndk a @ ''.bat'')
               = (\<not> ex (spec_linker_stem ndk a @ ''.cmd'') \<and> ex (spec_linker_stem ndk a @ ''.bat''))"
    for a ex
    by (simp add: spec_linker_def Let_def)
  show ?thesis
    using env iff by (simp add: linker_path_spec [OF assms(2)])
qed

theorem linker_primary_then_secondary_witness:
  "\<not> native_build android_builder
   \<and> android_ndk_home android_builder = Some ''C:/ndk''
   \<and> environ (setup_environment android_builder android_world)
        ''CARGO_TARGET_AARCH64_LINUX_ANDROID_LINKER''
       = Some ''C:/ndk/toolchains/llvm/prebuilt/windows-x86_64/bin/aarch64-linux-android33-clang.bat''"
  using linker_primary_then_secondary [of android_builder "''C:/ndk''" android_world]
  by (simp add: android_builder_def android_world_def example_world_def spec_linker_def
      spec_linker_stem_def str_int_33)


section \<open>The staged artifact\<close>

text \<open>
  Claim C9. The binary suffix depends on the target triple alone: it is \<open>.exe\<close> when the
  triple contains \<open>windows\<close> and empty otherwise; no property of the host enters. The
  artifact is copied to \<open><output_dir>/<binary_name><suffix>\<close>: staging succeeds when the
  compiled file \<open>target/<triple>/release/<binary_name><suffix>\<close> exists and the
  file-system calls raise nothing, and whenever it succeeds its last file-system call is the
  copy to that destination.
\<close>

theorem binary_suffix_by_target:
  "binary_suffix b = (if sublist ''windows'' (target b) then ''.exe'' else [])
   \<and> (binary_suffix b \<noteq> [] \<longleftrightarrow> sublist ''windows'' (target b))
   \<and> (fs_exists w (''target/'' @ target b @ ''/release/'' @ binary_name b @ binary_suffix b)
        \<and> \<not> fs_denied w (output_dir b)
        \<and> \<not> fs_denied w (output_dir b @ ''/'' @ binary_name b @ binary_suffix b)
       \<longrightarrow> fst (copy_binary b w) = Inr True)
   \<and> (fst (copy_binary b w) = Inr True \<longrightarrow>
         fs_ops (snd (copy_binary b w))
           = fs_ops w @ [MakeDirs (output_dir b),
                         Copy2 (''target/'' @ target b @ ''/release/'' @ binary_name b @ binary_suffix b)
                               (output_dir b @ ''/'' @ binary_name b @ binary_suffix b)])"
proof -
  have suffix: "binary_suffix b = (if sublist ''windows'' (target b) then ''.exe'' else [])"
    by (simp add: binary_suffix_def is_windows_target_def py_in_sublist)
  have copy: "fst (copy_binary b w) = Inr True \<longleftrightarrow>
                fs_exists w (source_path b) \<and> \<not> fs_denied w (output_dir b)
                \<and> \<not> fs_denied w (dest_path b)"
    by (simp add: copy_binary_def os_makedirs_def shutil_copy2_def)
  have ops: "fs_ops (snd (copy_binary b w))
               = fs_ops w @ [MakeDirs (output_dir b), Copy2 (source_path b) (dest_path b)]"
    if "fst (copy_binary b w) = Inr True"
    using that by (simp add: copy_binary_def os_makedirs_def shutil_copy2_def split: if_splits)
  show ?thesis
    using suffix copy ops by (simp add: source_path_def dest_path_def)
qed

theorem binary_suffix_by_target_witness:
  "binary_suffix default_builder = ''.exe''
   \<and> binary_suffix android_builder = []
   \<and> fs_exists staged_world ''target/x86_64-pc-windows-msvc/release/fpid.exe''
   \<and> fst (copy_binary default_builder staged_world) = Inr True
   \<and> fs_ops (snd (copy_binary default_builder staged_world))
       = [MakeDirs ''output'',
          Copy2 ''target/x86_64-pc-windows-msvc/release/fpid.exe'' ''output/fpid.exe'']"
proof -
  have windows: "sublist ''windows'' (target default_builder)"
    unfolding py_in_sublist [symmetric] by (simp add: default_builder_def startswith_def)
  have android: "\<not> sublist ''windows'' (target android_builder)"
    unfolding py_in_sublist [symmetric] by (simp add: android_builder_def startswith_def)
  show ?thesis
    using binary_suffix_by_target [of default_builder staged_world]
      binary_suffix_by_target [of android_builder staged_world] windows android
    by (simp add: default_builder_def staged_world_def example_world_def)
qed

section \<open>Running the environment step twice\<close>

text \<open>
  Claim C2, as stated, fails for the search path. The constructor runs the environment
  step once; running it again on the environment it left prepends the two toolchain
  directories a second time, so \<open>PATH\<close> differs between the two runs.
\<close>

theorem path_grows_counterexample:
  "init android_world ''build_config.toml''
     = (Inr android_builder, setup_environment android_builder android_world)
   \<and> environ (setup_environment android_builder android_world) ''PATH''
       = Some ''C:/llvm/bin;C:/ndk/toolchains/llvm/prebuilt/windows-x86_64/bin;C:/bin''
   \<and> environ (setup_environment android_builder
                 (setup_environment android_builder android_world)) ''PATH''
       = Some (''C:/llvm/bin;C:/ndk/toolchains/llvm/prebuilt/windows-x86_64/bin;''
               @ ''C:/llvm/bin;C:/ndk/toolchains/llvm/prebuilt/windows-x86_64/bin;C:/bin'')"
  apply (simp add: android_init)
  apply (simp add: setup_environment_def env_vars_def android_builder_def android_world_def
      example_world_def py_str_def)
  done

text \<open>
  Claim C2, amended. Running the environment step a second time, from the environment the
  first run left, gives every variable other than \<open>PATH\<close> the value the first run gave it;
  in native mode the step changes nothing at all; in cross mode a run sets the six
  toolchain variables to the values composed from the builder (and, for the linker, the
  disk), leaves every variable it does not name as it was, and puts
  \<open><llvm_path>/bin;<android_ndk_home>/toolchains/llvm/prebuilt/windows-x86_64/bin;\<close>
  in front of the \<open>PATH\<close> it finds (the empty string when \<open>PATH\<close> is unset): the first
  value of \<open>PATH\<close> is that prefix followed by the inherited value, and the second is the
  prefix followed by the first.
\<close>

theorem environment_step_twice:
  "(\<forall>k. k \<noteq> ''PATH'' \<longrightarrow>
      environ (setup_environment b (setup_environment b w)) k
        = environ (setup_environment b w) k)
   \<and> (native_build b \<longrightarrow> setup_environment b w = w)
   \<and> (\<not> native_build b \<longrightarrow>
        environ (setup_environment b w) ''PATH''
          = Some (path_prefix b @ (case environ w ''PATH'' of None \<Rightarrow> [] | Some p \<Rightarrow> p))
        \<and> environ (setup_environment b (setup_environment b w)) ''PATH''
            = Some (path_prefix b @ path_prefix b
                      @ (case environ w ''PATH'' of None \<Rightarrow> [] | Some p \<Rightarrow> p))
        \<and> (\<exists>p. environ (setup_environment b w) ''PATH'' = Some p
              \<and> environ (setup_environment b (setup_environment b w)) ''PATH''
                  = Some (path_prefix b @ p)))
   \<and> (\<not> native_build b \<longrightarrow>
        environ (setup_environment b w) ''ANDROID_NDK_HOME'' = Some (py_str (android_ndk_home b))
        \<and> environ (setup_environment b w) ''LLVM_PATH'' = Some (py_str (llvm_path b))
        \<and> environ (setup_environment b w) ''CARGO_TARGET_AARCH64_LINUX_ANDROID_LINKER''
            = Some (linker_path b (fs_exists w))
        \<and> environ (setup_environment b w) ''CARGO_TARGET_AARCH64_LINUX_ANDROID_AR''
            = Some (py_str (llvm_path b) @ ''/bin/llvm-ar.exe'')
        \<and> environ (setup_environment b w) ''LIBCLANG_PATH''
            = Some (py_str (llvm_path b) @ ''/bin'')
        \<and> environ (setup_environment b w) ''BINDGEN_EXTRA_CLANG_ARGS''
            = Some (''--target=aarch64-linux-android -I'' @ py_str (android_ndk_home b)
                      @ ''/toolchains/llvm/prebuilt/windows-x86_64/sysroot/usr/include''))
   \<and> (\<forall>k. k \<notin> {''ANDROID_NDK_HOME'', ''LLVM_PATH'',
               ''CARGO_TARGET_AARCH64_LINUX_ANDROID_LINKER'',
               ''CARGO_TARGET_AARCH64_LINUX_ANDROID_AR'', ''LIBCLANG_PATH'',
               ''BINDGEN_EXTRA_CLANG_ARGS'', ''PATH''} \<longrightarrow>
          environ (setup_environment b w) k = environ w k)"
proof (cases "native_build b")
  case True
  then show ?thesis by (simp add: setup_environment_def env_vars_def)
next
  case False
  have other: "environ (setup_environment b (setup_environment b w)) k
                 = environ (setup_environment b w) k" if "k \<noteq> ''PATH''" for k
    using False that by (simp add: setup_environment_def env_vars_def)
  have one_run: "environ (setup_environment b v) ''PATH''
                = Some (path_prefix b @ (case environ v ''PATH'' of None \<Rightarrow> [] | Some p \<Rightarrow> p))"
    for v
    using False by (simp add: setup_environment_def env_vars_def path_prefix_def)
  have first: "environ (setup_environment b w) ''PATH''
                 = Some (path_prefix b @ (case environ w ''PATH'' of None \<Rightarrow> [] | Some p \<Rightarrow> p))"
    by (rule one_run)
  have second: "environ (setup_environment b (setup_environment b w)) ''PATH''
                  = Some (path_prefix b @ path_prefix b
                            @ (case environ w ''PATH'' of None \<Rightarrow> [] | Some p \<Rightarrow> p))"
    using one_run [of "setup_environment b w"] first by simp
  have composed:
    "environ (setup_environment b w) ''ANDROID_NDK_HOME'' = Some (py_str (android_ndk_home b))"
    "environ (setup_environment b w) ''LLVM_PATH'' = Some (py_str (llvm_path b))"
    "environ (setup_environment b w) ''CARGO_TARGET_AARCH64_LINUX_ANDROID_LINKER''
       = Some (linker_path b (fs_exists w))"
    "environ (setup_environment b w) ''CARGO_TARGET_AARCH64_LINUX_ANDROID_AR''
       = Some (py_str (llvm_path b) @ ''/bin/llvm-ar.exe'')"
    "environ (setup_environment b w) ''LIBCLANG_PATH'' = Some (py_str (llvm_path b) @ ''/bin'')"
    "environ (setup_environment b w) ''BINDGEN_EXTRA_CLANG_ARGS''
       = Some (''--target=aarch64-linux-android -I'' @ py_str (android_ndk_home b)
                 @ ''/toolchains/llvm/prebuilt/windows-x86_64/sysroot/usr/include'')"
    using False by (simp_all add: setup_environment_def env_vars_def)
  have untouched: "environ (setup_environment b w) k = environ w k"
    if "k \<notin> {''ANDROID_NDK_HOME'', ''LLVM_PATH'',
               ''CARGO_TARGET_AARCH64_LINUX_ANDROID_LINKER'',
               ''CARGO_TARGET_AARCH64_LINUX_ANDROID_AR'', ''LIBCLANG_PATH'',
               ''BINDGEN_EXTRA_CLANG_ARGS'', ''PATH''}" for k
    using that by (simp add: setup_environment_def env_vars_def)
  show ?thesis
    using False other first second composed untouched by simp
qed

theorem environment_step_twice_witness:
  "''LLVM_PATH'' \<noteq> ''PATH''
   \<and> environ (setup_environment android_builder
                 (setup_environment android_builder android_world)) ''LLVM_PATH''
       = environ (setup_environment android_builder android_world) ''LLVM_PATH''
   \<and> \<not> native_build android_builder
   \<and> environ android_world ''PATH'' = Some ''C:/bin''
   \<and> environ (setup_environment android_builder android_world) ''PATH''
       = Some (path_prefix android_builder @ ''C:/bin'')
   \<and> environ (setup_environment android_builder
                 (setup_environment android_builder android_world)) ''PATH''
       = Some (path_prefix android_builder @ path_prefix android_builder @ ''C:/bin'')
   \<and> native_build default_builder
   \<and> setup_environment default_builder default_world = default_world"
proof -
  have inherited: "environ android_world ''PATH'' = Some ''C:/bin''"
    by (simp add: android_world_def example_world_def)
  have flags: "\<not> native_build android_builder" "native_build default_builder"
    by (simp_all add: android_builder_def default_builder_def)
  show ?thesis
    using environment_step_twice [of android_builder android_world]
      environment_step_twice [of default_builder default_world] inherited flags
    by simp
qed


section \<open>Facts about subprocesses and the pipeline stages\<close>

lemma subprocess_run_fields:
  "fst (subprocess_run w c) = child_exit w (length (spawned w)) c"
  "spawned (snd (subprocess_run w c)) = spawned w @ [c]"
  "child_exit (snd (subprocess_run w c)) = child_exit w"
  "environ (snd (subprocess_run w c)) = environ w"
  "fs_ops (snd (subprocess_run w c)) = fs_ops w"
  "fs_denied (snd (subprocess_run w c)) = fs_denied w"
  by (simp_all add: subprocess_run_def Let_def)

lemma target_installer_child_exit: "child_exit (target_installer b w) = child_exit w"
  by (simp add: target_installer_def subprocess_run_def Let_def split: proc_result.splits)

lemma format_gate_after_fix:
  assumes "child_exit w (length (spawned w)) fmt_cmd = CalledProcessError"
    and "child_exit w (Suc (length (spawned w))) fmt_fix_cmd = Completed out"
  shows "fst (format_gate w)
           = (child_exit w (Suc (Suc (length (spawned w)))) fmt_cmd \<noteq> CalledProcessError)"
    and "spawned (snd (format_gate w)) = spawned w @ [fmt_cmd, fmt_fix_cmd, fmt_cmd]"
  using assms
  by (simp_all add: format_gate_def subprocess_run_def Let_def split: proc_result.splits)

lemma lint_runs_first:
  "\<exists>rest. spawned (snd (lint_and_compile b w)) = spawned w @ clippy_cmd # rest"
  by (simp add: lint_and_compile_def compiler_invoker_def subprocess_run_def Let_def
      split: proc_result.splits)

lemma build_after_dependencies:
  assumes "check_dependencies b w = Inr True"
  shows "build b w =
           (if fst (format_gate (target_installer b w))
            then lint_and_compile b (snd (format_gate (target_installer b w)))
            else (Inr False, snd (format_gate (target_installer b w))))"
  using assms by (simp add: build_def split: prod.splits bool.splits)


section \<open>The format gate\<close>

text \<open>
  Claim C1, as stated, fails: the recheck does gate the pipeline. With a format check that
  fails both times and a reformat that succeeds, \<open>build\<close> returns False after the recheck
  and the lint command is never started.
\<close>

theorem recheck_failure_halts_counterexample:
  "child_exit recheck_fails_world 2 fmt_cmd = CalledProcessError
   \<and> child_exit recheck_fails_world 3 fmt_fix_cmd = Completed []
   \<and> child_exit recheck_fails_world 4 fmt_cmd = CalledProcessError
   \<and> fst (build default_builder recheck_fails_world) = Inr False
   \<and> spawned (snd (build default_builder recheck_fails_world))
       = [[''rustup'', ''target'', ''list'', ''--installed''],
          [''rustup'', ''target'', ''add'', ''x86_64-pc-windows-msvc''],
          fmt_cmd, fmt_fix_cmd, fmt_cmd]"
  by (simp add: build_def check_dependencies_def dependencies_def default_builder_def
      recheck_fails_world_def example_world_def target_installer_def subprocess_run_def
      py_split_def format_gate_def Let_def fmt_cmd_def fmt_fix_cmd_def)

text \<open>
  Claim C1, amended. When the format check exits non-zero and the reformat exits 0, the
  check is run once more and its result decides: if the recheck exits non-zero the build
  returns False right there, the lint command never being started; if the recheck exits 0
  (or its executable is not found) the pipeline goes on to the Lint Gate, whose command is
  the next one started.
\<close>

theorem format_gate_recheck_decides:
  assumes deps: "check_dependencies b w = Inr True"
    and n: "n = length (spawned (target_installer b w))"
    and check: "child_exit w n fmt_cmd = CalledProcessError"
    and refmt: "child_exit w (Suc n) fmt_fix_cmd = Completed out"
  shows "(child_exit w (Suc (Suc n)) fmt_cmd = CalledProcessError \<longrightarrow>
            fst (build b w) = Inr False
            \<and> spawned (snd (build b w))
                = spawned (target_installer b w) @ [fmt_cmd, fmt_fix_cmd, fmt_cmd])
         \<and> (child_exit w (Suc (Suc n)) fmt_cmd \<noteq> CalledProcessError \<longrightarrow>
              (\<exists>rest. spawned (snd (build b w))
                 = spawned (target_installer b w) @ [fmt_cmd, fmt_fix_cmd, fmt_cmd, clippy_cmd]
                     @ rest))"
proof -
  let ?w1 = "target_installer b w"
  have check1: "child_exit ?w1 (length (spawned ?w1)) fmt_cmd = CalledProcessError"
    using check n by (simp add: target_installer_child_exit)
  have fix1: "child_exit ?w1 (Suc (length (spawned ?w1))) fmt_fix_cmd = Completed out"
    using refmt n by (simp add: target_installer_child_exit)
  have gate: "fst (format_gate ?w1) = (child_exit w (Suc (Suc n)) fmt_cmd \<noteq> CalledProcessError)"
    using format_gate_after_fix(1) [OF check1 fix1] n
    by (simp add: target_installer_child_exit)
  have log: "spawned (snd (format_gate ?w1)) = spawned ?w1 @ [fmt_cmd, fmt_fix_cmd, fmt_cmd]"
    by (rule format_gate_after_fix(2) [OF check1 fix1])
  obtain rest where lint:
    "spawned (snd (lint_and_compile b (snd (format_gate ?w1))))
       = spawned (snd (format_gate ?w1)) @ clippy_cmd # rest"
    using lint_runs_first by blast
  show ?thesis
    using gate log lint by (simp add: build_after_dependencies [OF deps])
qed

theorem format_gate_recheck_decides_witness:
  "check_dependencies default_builder recheck_fails_world = Inr True
   \<and> length (spawned (target_installer default_builder recheck_fails_world)) = 2
   \<and> child_exit recheck_fails_world 4 fmt_cmd = CalledProcessError
   \<and> fst (build default_builder recheck_fails_world) = Inr False
   \<and> child_exit recheck_passes_world 2 fmt_cmd = CalledProcessError
   \<and> child_exit recheck_passes_world 3 fmt_fix_cmd = Completed []
   \<and> child_exit recheck_passes_world 4 fmt_cmd \<noteq> CalledProcessError
   \<and> (\<exists>rest. spawned (snd (build default_builder recheck_passes_world))
         = spawned (target_installer default_builder recheck_passes_world)
             @ [fmt_cmd, fmt_fix_cmd, fmt_cmd, clippy_cmd] @ rest)"
proof -
  have deps: "check_dependencies default_builder w = Inr True" for w
    by (simp add: check_dependencies_def dependencies_def default_builder_def)
  have len1: "length (spawned (target_installer default_builder recheck_fails_world)) = 2"
    by (simp add: target_installer_def subprocess_run_def Let_def recheck_fails_world_def
        example_world_def default_builder_def py_split_def fmt_cmd_def)
  have len2: "length (spawned (target_installer default_builder recheck_passes_world)) = 2"
    by (simp add: target_installer_def subprocess_run_def Let_def recheck_passes_world_def
        example_world_def default_builder_def py_split_def)
  have fails: "child_exit recheck_fails_world k fmt_cmd = CalledProcessError"
    "child_exit recheck_fails_world k fmt_fix_cmd = Completed []" for k
    by (simp_all add: recheck_fails_world_def example_world_def fmt_cmd_def fmt_fix_cmd_def)
  have passes: "child_exit recheck_passes_world 2 c = CalledProcessError"
    "child_exit recheck_passes_world 3 c = Completed []"
    "child_exit recheck_passes_world 4 c = Completed []" for c
    by (simp_all add: recheck_passes_world_def example_world_def)
  show ?thesis
    using format_gate_recheck_decides [OF deps len1 [symmetric] fails(1) fails(2)]
      format_gate_recheck_decides
        [OF deps len2 [symmetric], of "[]", simplified numeral_2_eq_2 [symmetric]]
      deps len1 fails passes
    by (simp add: eval_nat_numeral)
qed

section \<open>Missing toolchain paths\<close>

lemma init_cross_paths:
  assumes "init w path = (Inr b, w')" and "\<not> native_build b"
  shows "\<exists>n l. android_ndk_home b = Some n \<and> llvm_path b = Some l \<and> n \<noteq> [] \<and> l \<noteq> []"
  using init_builder(3) [OF assms] by (auto simp: truthy_def split: option.splits)

lemma setup_environment_fields:
  "fs_exists (setup_environment b w) = fs_exists w"
  "spawned (setup_environment b w) = spawned w"
  "fs_ops (setup_environment b w) = fs_ops w"
  "child_exit (setup_environment b w) = child_exit w"
  "fs_denied (setup_environment b w) = fs_denied w"
  by (simp_all add: setup_environment_def)

lemma cross_missing_deps:
  assumes "\<not> native_build b" and "android_ndk_home b = Some n" and "llvm_path b = Some l"
  shows "missing_deps ex (dependencies b)
           = Inr ((if ex n then [] else [''Android NDK: '' @ n])
                  @ (if ex l then [] else [''LLVM: '' @ l]))"
    and "check_dependencies b w = Inr (fs_exists w n \<and> fs_exists w l)"
  using assms by (simp_all add: check_dependencies_def dependencies_def)

lemma build_without_dependencies:
  "check_dependencies b w = Inr False \<Longrightarrow> build b w = (Inr False, w)"
  by (simp add: build_def)

lemma missing_dirs_init:
  "init missing_dirs_world ''build_config.toml''
     = (Inr android_builder, setup_environment android_builder missing_dirs_world)"
  by (simp add: init_def missing_dirs_world_def example_defs toml_load_path_def
      is_native_build_def looks_native_def endswith_def truthy_def Let_def)

lemma llvm_missing_init:
  "init llvm_missing_world ''build_config.toml''
     = (Inr android_builder, setup_environment android_builder llvm_missing_world)"
  by (simp add: init_def llvm_missing_world_def example_defs toml_load_path_def
      is_native_build_def looks_native_def endswith_def truthy_def Let_def)

lemma no_paths_init:
  "init no_paths_world ''build_config.toml'' = (Inl (ValueError ''android_ndk_home''), no_paths_world)"
  by (simp add: init_def no_paths_world_def no_paths_def example_defs toml_load_path_def
      is_native_build_def looks_native_def endswith_def truthy_def Let_def)

text \<open>
  Claim C3, as stated, fails on both readings of a missing path. When both configured paths
  point at directories that do not exist, construction succeeds and sets the environment;
  when both keys are absent, the error cites \<open>android_ndk_home\<close> only.
\<close>

theorem missing_paths_counterexample:
  "\<not> looks_native ''aarch64-linux-android''
   \<and> \<not> fs_exists missing_dirs_world ''C:/ndk'' \<and> \<not> fs_exists missing_dirs_world ''C:/llvm''
   \<and> fst (init missing_dirs_world ''build_config.toml'') = Inr android_builder
   \<and> environ missing_dirs_world ''ANDROID_NDK_HOME'' = None
   \<and> environ (snd (init missing_dirs_world ''build_config.toml'')) ''ANDROID_NDK_HOME''
       = Some ''C:/ndk''
   \<and> cfg_android_ndk_home no_paths = None \<and> cfg_llvm_path no_paths = None
   \<and> fst (init no_paths_world ''build_config.toml'') = Inl (ValueError ''android_ndk_home'')"
  apply (simp add: missing_dirs_init no_paths_init)
  apply (simp add: looks_native_def endswith_def missing_dirs_world_def example_world_def
      no_paths_def setup_environment_def env_vars_def android_builder_def py_str_def)
  done

text \<open>
  Claim C3, amended. For a configuration whose target triple is not host-like:
  if \<open>android_ndk_home\<close> is absent or empty, construction fails with a \<open>ValueError\<close>
  that cites \<open>android_ndk_home\<close> alone (whatever \<open>llvm_path\<close> is); otherwise, if
  \<open>llvm_path\<close> is absent or empty, it fails citing \<open>llvm_path\<close>; in both cases nothing
  has been set or started. If both paths are non-empty but neither exists on disk,
  construction succeeds and sets the environment variables; the failure comes from the
  dependency check at the start of \<open>build\<close>, which lists both missing paths and returns
  False before any subprocess is started.
\<close>

theorem missing_toolchain_paths:
  assumes "config_at w path = Toml (Some p)"
    and "cfg_target p = Some t"
    and "\<not> looks_native t"
  shows "(\<not> truthy (cfg_android_ndk_home p) \<longrightarrow>
            init w path = (Inl (ValueError ''android_ndk_home''), w))
         \<and> (truthy (cfg_android_ndk_home p) \<and> \<not> truthy (cfg_llvm_path p) \<longrightarrow>
              init w path = (Inl (ValueError ''llvm_path''), w))
         \<and> (\<forall>n l. cfg_android_ndk_home p = Some n \<and> cfg_llvm_path p = Some l
                \<and> n \<noteq> [] \<and> l \<noteq> [] \<and> \<not> fs_exists w n \<and> \<not> fs_exists w l \<longrightarrow>
              (\<exists>b. init w path = (Inr b, setup_environment b w)
                 \<and> environ (setup_environment b w) ''ANDROID_NDK_HOME'' = Some n
                 \<and> missing_deps (fs_exists w) (dependencies b)
                     = Inr [''Android NDK: '' @ n, ''LLVM: '' @ l]
                 \<and> build b (setup_environment b w) = (Inr False, setup_environment b w)))"
proof (intro conjI impI allI)
  assume "\<not> truthy (cfg_android_ndk_home p)"
  then show "init w path = (Inl (ValueError ''android_ndk_home''), w)"
    using assms by (simp add: init_def toml_load_path_def is_native_build_def Let_def)
next
  assume "truthy (cfg_android_ndk_home p) \<and> \<not> truthy (cfg_llvm_path p)"
  then show "init w path = (Inl (ValueError ''llvm_path''), w)"
    using assms by (simp add: init_def toml_load_path_def is_native_build_def Let_def)
next
  fix n l
  assume h: "cfg_android_ndk_home p = Some n \<and> cfg_llvm_path p = Some l
               \<and> n \<noteq> [] \<and> l \<noteq> [] \<and> \<not> fs_exists w n \<and> \<not> fs_exists w l"
  obtain b where b: "init w path = (Inr b, setup_environment b w)"
    and cross: "\<not> native_build b"
    and ndk: "android_ndk_home b = Some n" and llvm: "llvm_path b = Some l"
    using assms h by (simp add: init_def toml_load_path_def is_native_build_def Let_def truthy_def)
  have env: "environ (setup_environment b w) ''ANDROID_NDK_HOME'' = Some n"
    using cross ndk by (simp add: setup_environment_def env_vars_def py_str_def)
  have missing: "missing_deps (fs_exists w) (dependencies b)
                   = Inr [''Android NDK: '' @ n, ''LLVM: '' @ l]"
    using cross_missing_deps(1) [OF cross ndk llvm, of "fs_exists w"] h by simp
  have "check_dependencies b (setup_environment b w) = Inr False"
    using cross_missing_deps(2) [OF cross ndk llvm, of "setup_environment b w"] h
    by (simp add: setup_environment_fields)
  then have "build b (setup_environment b w) = (Inr False, setup_environment b w)"
    by (rule build_without_dependencies)
  with b env missing
  show "\<exists>b. init w path = (Inr b, setup_environment b w)
          \<and> environ (setup_environment b w) ''ANDROID_NDK_HOME'' = Some n
          \<and> missing_deps (fs_exists w) (dependencies b)
              = Inr [''Android NDK: '' @ n, ''LLVM: '' @ l]
          \<and> build b (setup_environment b w) = (Inr False, setup_environment b w)"
    by blast
qed

theorem missing_toolchain_paths_witness:
  "config_at no_paths_world ''build_config.toml'' = Toml (Some no_paths)
   \<and> cfg_target no_paths = Some ''aarch64-linux-android''
   \<and> \<not> looks_native ''aarch64-linux-android''
   \<and> \<not> truthy (cfg_android_ndk_home no_paths)
   \<and> init no_paths_world ''build_config.toml''
       = (Inl (ValueError ''android_ndk_home''), no_paths_world)
   \<and> config_at missing_dirs_world ''build_config.toml'' = Toml (Some android_paths)
   \<and> \<not> fs_exists missing_dirs_world ''C:/ndk'' \<and> \<not> fs_exists missing_dirs_world ''C:/llvm''
   \<and> (\<exists>b. init missing_dirs_world ''build_config.toml''
              = (Inr b, setup_environment b missing_dirs_world)
          \<and> missing_deps (fs_exists missing_dirs_world) (dependencies b)
              = Inr [''Android NDK: C:/ndk'', ''LLVM: C:/llvm'']
          \<and> build b (setup_environment b missing_dirs_world)
              = (Inr False, setup_environment b missing_dirs_world))"
proof -
  have cross: "\<not> looks_native ''aarch64-linux-android''"
    by (simp add: looks_native_def endswith_def)
  have c1: "config_at no_paths_world ''build_config.toml'' = Toml (Some no_paths)"
    by (simp add: no_paths_world_def example_world_def)
  have t1: "cfg_target no_paths = Some ''aarch64-linux-android''"
    by (simp add: no_paths_def)
  have c2: "config_at missing_dirs_world ''build_config.toml'' = Toml (Some android_paths)"
    by (simp add: missing_dirs_world_def example_world_def)
  have t2: "cfg_target android_paths = Some ''aarch64-linux-android''"
    by (simp add: android_paths_def)
  have nt: "\<not> truthy (cfg_android_ndk_home no_paths)"
    by (simp add: no_paths_def truthy_def)
  have first: "init no_paths_world ''build_config.toml''
                 = (Inl (ValueError ''android_ndk_home''), no_paths_world)"
    using missing_toolchain_paths [OF c1 t1 cross] nt by simp
  have gone: "\<not> fs_exists missing_dirs_world ''C:/ndk''"
    "\<not> fs_exists missing_dirs_world ''C:/llvm''"
    by (simp_all add: missing_dirs_world_def example_world_def)
  have "\<exists>b. init missing_dirs_world ''build_config.toml''
               = (Inr b, setup_environment b missing_dirs_world)
           \<and> environ (setup_environment b missing_dirs_world) ''ANDROID_NDK_HOME''
               = Some ''C:/ndk''
           \<and> missing_deps (fs_exists missing_dirs_world) (dependencies b)
               = Inr [''Android NDK: C:/ndk'', ''LLVM: C:/llvm'']
           \<and> build b (setup_environment b missing_dirs_world)
               = (Inr False, setup_environment b missing_dirs_world)"
    using missing_toolchain_paths [OF c2 t2 cross] gone by (simp add: android_paths_def)
  then have second:
    "\<exists>b. init missing_dirs_world ''build_config.toml''
            = (Inr b, setup_environment b missing_dirs_world)
        \<and> missing_deps (fs_exists missing_dirs_world) (dependencies b)
            = Inr [''Android NDK: C:/ndk'', ''LLVM: C:/llvm'']
        \<and> build b (setup_environment b missing_dirs_world)
            = (Inr False, setup_environment b missing_dirs_world)"
    by blast
  show ?thesis
    using cross c1 t1 nt first c2 gone second by blast
qed

section \<open>Where the toolchain paths are checked\<close>

text \<open>
  Claim C4, as stated, fails: the constructor does not require the two roots to exist on
  disk. With the NDK present and the LLVM root missing, construction succeeds in cross
  mode, and the failure is the one of the dependency check in \<open>build\<close>.
\<close>

theorem existence_deferred_counterexample:
  "fs_exists llvm_missing_world ''C:/ndk''
   \<and> \<not> fs_exists llvm_missing_world ''C:/llvm''
   \<and> fst (init llvm_missing_world ''build_config.toml'') = Inr android_builder
   \<and> \<not> native_build android_builder
   \<and> llvm_path android_builder = Some ''C:/llvm''
   \<and> build android_builder (snd (init llvm_missing_world ''build_config.toml''))
       = (Inr False, snd (init llvm_missing_world ''build_config.toml''))"
  apply (simp add: llvm_missing_init)
  apply (simp add: build_def check_dependencies_def dependencies_def android_builder_def
      llvm_missing_world_def example_world_def setup_environment_def)
  done

text \<open>
  Claim C4, amended. For a configuration that resolves to cross mode, the constructor
  enforces that both roots are configured and non-empty, and nothing more: construction
  succeeds exactly when both are non-empty, whether or not they exist on disk. Their
  existence is checked later, by the dependency check at the start of \<open>build\<close>, which
  passes exactly when both exist and otherwise makes \<open>build\<close> return False at once.
\<close>

theorem cross_paths_two_checks:
  "(config_at w path = Toml (Some p)
      \<and> spec_mode (case cfg_target p of None \<Rightarrow> ''x86_64-pc-windows-msvc'' | Some t \<Rightarrow> t)
           (cfg_android_ndk_home p) (cfg_llvm_path p) (fs_exists w) = Cross
    \<longrightarrow> ((\<exists>b w'. init w path = (Inr b, w'))
           \<longleftrightarrow> truthy (cfg_android_ndk_home p) \<and> truthy (cfg_llvm_path p)))
   \<and> (init w path = (Inr b, w') \<and> \<not> native_build b
      \<longrightarrow> (\<exists>n l. android_ndk_home b = Some n \<and> llvm_path b = Some l \<and> n \<noteq> [] \<and> l \<noteq> []
             \<and> check_dependencies b w' = Inr (fs_exists w n \<and> fs_exists w l)
             \<and> (\<not> (fs_exists w n \<and> fs_exists w l) \<longrightarrow> build b w' = (Inr False, w'))))"
proof (intro conjI impI)
  assume h: "config_at w path = Toml (Some p)
      \<and> spec_mode (case cfg_target p of None \<Rightarrow> ''x86_64-pc-windows-msvc'' | Some t \<Rightarrow> t)
           (cfg_android_ndk_home p) (cfg_llvm_path p) (fs_exists w) = Cross"
  then have cross:
    "\<not> is_native_build (case cfg_target p of None \<Rightarrow> ''x86_64-pc-windows-msvc'' | Some t \<Rightarrow> t)
        (cfg_android_ndk_home p) (cfg_llvm_path p) (fs_exists w)"
    by (simp add: is_native_build_spec)
  show "(\<exists>b w'. init w path = (Inr b, w'))
          \<longleftrightarrow> truthy (cfg_android_ndk_home p) \<and> truthy (cfg_llvm_path p)"
    using h cross by (auto simp: init_def toml_load_path_def Let_def)
next
  assume h: "init w path = (Inr b, w') \<and> \<not> native_build b"
  then obtain n l where paths: "android_ndk_home b = Some n" "llvm_path b = Some l"
    "n \<noteq> []" "l \<noteq> []"
    using init_cross_paths by blast
  have w': "w' = setup_environment b w"
    using h init_builder(2) by blast
  have deps: "check_dependencies b w' = Inr (fs_exists w n \<and> fs_exists w l)"
    using cross_missing_deps(2) [OF _ paths(1,2), of w'] h
    by (simp add: w' setup_environment_fields)
  have "build b w' = (Inr False, w')" if "\<not> (fs_exists w n \<and> fs_exists w l)"
    using deps that by (simp add: build_without_dependencies)
  with paths deps
  show "\<exists>n l. android_ndk_home b = Some n \<and> llvm_path b = Some l \<and> n \<noteq> [] \<and> l \<noteq> []
          \<and> check_dependencies b w' = Inr (fs_exists w n \<and> fs_exists w l)
          \<and> (\<not> (fs_exists w n \<and> fs_exists w l) \<longrightarrow> build b w' = (Inr False, w'))"
    by blast
qed

theorem cross_paths_two_checks_witness:
  "config_at llvm_missing_world ''build_config.toml'' = Toml (Some android_paths)
   \<and> spec_mode ''aarch64-linux-android'' (Some ''C:/ndk'') (Some ''C:/llvm'')
        (fs_exists llvm_missing_world) = Cross
   \<and> truthy (cfg_android_ndk_home android_paths) \<and> truthy (cfg_llvm_path android_paths)
   \<and> (\<exists>b w'. init llvm_missing_world ''build_config.toml'' = (Inr b, w'))
   \<and> init llvm_missing_world ''build_config.toml''
       = (Inr android_builder, setup_environment android_builder llvm_missing_world)
   \<and> \<not> native_build android_builder
   \<and> check_dependencies android_builder
        (setup_environment android_builder llvm_missing_world) = Inr False"
proof -
  have cfg: "config_at llvm_missing_world ''build_config.toml'' = Toml (Some android_paths)"
    by (simp add: llvm_missing_world_def example_world_def)
  have cross: "\<not> native_build android_builder"
    by (simp add: android_builder_def)
  have mode: "spec_mode ''aarch64-linux-android'' (Some ''C:/ndk'') (Some ''C:/llvm'')
                (fs_exists llvm_missing_world) = Cross"
    using is_native_build_spec
      [of "''aarch64-linux-android''" "Some ''C:/ndk''" "Some ''C:/llvm''"
        "fs_exists llvm_missing_world"]
    by (cases "spec_mode ''aarch64-linux-android'' (Some ''C:/ndk'') (Some ''C:/llvm'')
                  (fs_exists llvm_missing_world)")
      (simp_all add: is_native_build_def looks_native_def endswith_def)
  have paths: "truthy (cfg_android_ndk_home android_paths)" "truthy (cfg_llvm_path android_paths)"
    by (simp_all add: android_paths_def truthy_def)
  have disk: "fs_exists llvm_missing_world ''C:/ndk''" "\<not> fs_exists llvm_missing_world ''C:/llvm''"
    by (simp_all add: llvm_missing_world_def example_world_def)
  have fields: "android_ndk_home android_builder = Some ''C:/ndk''"
    "llvm_path android_builder = Some ''C:/llvm''"
    by (simp_all add: android_builder_def)
  have mode': "spec_mode
      (case cfg_target android_paths of None \<Rightarrow> ''x86_64-pc-windows-msvc'' | Some t \<Rightarrow> t)
      (cfg_android_ndk_home android_paths) (cfg_llvm_path android_paths)
      (fs_exists llvm_missing_world) = Cross"
    using mode by (simp add: android_paths_def)
  have ok: "\<exists>b w'. init llvm_missing_world ''build_config.toml'' = (Inr b, w')"
    using cross_paths_two_checks
      [of llvm_missing_world "''build_config.toml''" android_paths] cfg mode' paths
    by blast
  have deps: "check_dependencies android_builder
                (setup_environment android_builder llvm_missing_world) = Inr False"
    using cross_paths_two_checks
      [of llvm_missing_world "''build_config.toml''" android_paths android_builder
        "setup_environment android_builder llvm_missing_world"]
      llvm_missing_init cross fields disk
    by auto
  show ?thesis
    using cfg mode paths ok llvm_missing_init cross deps by blast
qed


section \<open>The clean action\<close>

lemma clean_spawns_once: "spawned (snd (clean b w)) = spawned w @ [[''cargo'', ''clean'']]"
  by (simp add: clean_def subprocess_run_def shutil_rmtree_def Let_def
      split: proc_result.splits)

lemma clean_returns:
  assumes "child_exit w (length (spawned w)) [''cargo'', ''clean''] \<noteq> NotFound"
    and "\<not> fs_denied w (output_dir b)"
  shows "fst (clean b w) = Inr ()"
  using assms
  by (simp add: clean_def subprocess_run_def shutil_rmtree_def Let_def
      split: proc_result.splits)

lemma main_clean:
  assumes "arg_clean a" and "init w (arg_config a) = (Inr b, w1)"
  shows "fst (main a w) = (case fst (clean b w1) of Inl e \<Rightarrow> Uncaught e | Inr u \<Rightarrow> Exit 0)"
    and "snd (main a w) = snd (clean b w1)"
  using assms by (simp_all add: main_def split: prod.splits sum.splits)

text \<open>
  Claim C5, as stated, fails: an invocation with \<open>--clean\<close> can end with a failing exit
  status although no build action ran. The builder is constructed before the flag is
  looked at, so a configuration the constructor rejects ends the process with an uncaught
  exception.
\<close>

theorem clean_can_fail_counterexample:
  "arg_clean clean_args
   \<and> fst (main clean_args no_paths_world) = Uncaught (ValueError ''android_ndk_home'')
   \<and> exit_code (fst (main clean_args no_paths_world)) = 1
   \<and> spawned (snd (main clean_args no_paths_world)) = []"
  by (simp add: main_def clean_args_def no_paths_init exit_code_def)
    (simp add: no_paths_world_def example_world_def)

text \<open>
  Claim C5, amended. With \<open>--clean\<close> the build pipeline never runs: the only subprocess
  that can be started is \<open>cargo clean\<close>. If construction fails, the process ends with that
  uncaught exception, hence a failing exit status, and nothing has been started. If
  construction succeeds, the \<open>cargo\<close> executable is found (whatever its exit status) and
  removing the output directory raises nothing, the exit status is 0.
\<close>

theorem clean_skips_build:
  assumes "arg_clean a"
  shows "(\<forall>e. fst (init w (arg_config a)) = Inl e \<longrightarrow> main a w = (Uncaught e, w))
         \<and> (\<forall>b w1. init w (arg_config a) = (Inr b, w1)
                \<and> child_exit w (length (spawned w)) [''cargo'', ''clean''] \<noteq> NotFound
                \<and> \<not> fs_denied w (output_dir b)
              \<longrightarrow> fst (main a w) = Exit 0
                  \<and> spawned (snd (main a w)) = spawned w @ [[''cargo'', ''clean'']])
         \<and> (spawned (snd (main a w)) = spawned w
            \<or> spawned (snd (main a w)) = spawned w @ [[''cargo'', ''clean'']])"
proof -
  have failed: "main a w = (Uncaught e, w)" if rejected: "fst (init w (arg_config a)) = Inl e" for e
  proof -
    obtain w' where i: "init w (arg_config a) = (Inl e, w')"
      using rejected by (metis prod.collapse)
    then have "w' = w" by (rule init_error)
    with i show ?thesis by (simp add: main_def)
  qed
  have cleaned: "fst (main a w) = Exit 0
                   \<and> spawned (snd (main a w)) = spawned w @ [[''cargo'', ''clean'']]"
    if i: "init w (arg_config a) = (Inr b, w1)"
      and found: "child_exit w (length (spawned w)) [''cargo'', ''clean''] \<noteq> NotFound"
      and allowed: "\<not> fs_denied w (output_dir b)"
    for b w1
  proof -
    have w1: "w1 = setup_environment b w"
      using i init_builder(2) by blast
    have "fst (clean b w1) = Inr ()"
      using found allowed by (intro clean_returns) (simp_all add: w1 setup_environment_fields)
    then show ?thesis
      using main_clean [OF assms i]
      by (simp add: clean_spawns_once w1 setup_environment_fields)
  qed
  have log: "spawned (snd (main a w)) = spawned w
               \<or> spawned (snd (main a w)) = spawned w @ [[''cargo'', ''clean'']]"
  proof (cases "init w (arg_config a)")
    case (Pair r w1)
    show ?thesis
    proof (cases r)
      case (Inl e)
      with Pair have "w1 = w" using init_error by blast
      with Pair Inl show ?thesis by (simp add: main_def)
    next
      case (Inr b)
      with Pair have i: "init w (arg_config a) = (Inr b, w1)" by simp
      then have "w1 = setup_environment b w" using init_builder(2) by blast
      then show ?thesis
        using main_clean(2) [OF assms i]
        by (simp add: clean_spawns_once setup_environment_fields)
    qed
  qed
  show ?thesis
    using failed cleaned log by blast
qed

theorem clean_skips_build_witness:
  "arg_clean clean_args
   \<and> init default_world (arg_config clean_args) = (Inr default_builder, default_world)
   \<and> child_exit default_world (length (spawned default_world)) [''cargo'', ''clean'']
       \<noteq> NotFound
   \<and> \<not> fs_denied default_world (output_dir default_builder)
   \<and> fst (main clean_args default_world) = Exit 0
   \<and> spawned (snd (main clean_args default_world)) = [[''cargo'', ''clean'']]
   \<and> fst (init no_paths_world (arg_config clean_args)) = Inl (ValueError ''android_ndk_home'')
   \<and> main clean_args no_paths_world
       = (Uncaught (ValueError ''android_ndk_home''), no_paths_world)"
proof -
  have flag: "arg_clean clean_args" and path: "arg_config clean_args = ''build_config.toml''"
    by (simp_all add: clean_args_def)
  have world: "child_exit default_world (length (spawned default_world)) [''cargo'', ''clean'']
                 \<noteq> NotFound"
    "\<not> fs_denied default_world (output_dir default_builder)"
    "spawned default_world = []"
    by (simp_all add: default_world_def example_world_def)
  show ?thesis
    using clean_skips_build [OF flag, of default_world]
      clean_skips_build [OF flag, of no_paths_world]
      flag path world default_init no_paths_init
    by simp
qed

end
